theory Spec2Isabelle
  imports Complex_Main
begin

section \<open>Hardware status and configuration (middleware\_hardware.py)\<close>

text \<open>
  The middleware is Python. Python floats are modelled as reals and Python integers as
  \<open>int\<close>. Exceptions (the subclasses of \<open>Exception\<close>) are values of \<open>py_error\<close>; a
  function that can raise returns \<open>py_error + 'a\<close>, with \<open>Inl\<close> for the exception.
\<close>

datatype QPUStatus = READY | BUSY | ERROR | CALIBRATING

text \<open>\<open>status.value\<close>, the string each member of the enum carries.\<close>

fun QPUStatus_value :: "QPUStatus \<Rightarrow> string" where
  "QPUStatus_value READY = ''ready''"
| "QPUStatus_value BUSY = ''busy''"
| "QPUStatus_value ERROR = ''error''"
| "QPUStatus_value CALIBRATING = ''calibrating''"

text \<open>\<open>str(status)\<close>, as an f-string formats a member of a plain \<open>Enum\<close>.\<close>

fun QPUStatus_str :: "QPUStatus \<Rightarrow> string" where
  "QPUStatus_str READY = ''QPUStatus.READY''"
| "QPUStatus_str BUSY = ''QPUStatus.BUSY''"
| "QPUStatus_str ERROR = ''QPUStatus.ERROR''"
| "QPUStatus_str CALIBRATING = ''QPUStatus.CALIBRATING''"

datatype py_error =
    RuntimeError string
  | KeyError string
  | IndexError string
  | ValueError string
  | OtherException string

record QPUConfig =
  num_qubits :: int
  coherence_time_us :: real
  gate_fidelity :: real
  readout_fidelity :: real

definition QPUConfig_default :: QPUConfig where
  "QPUConfig_default =
     \<lparr>num_qubits = 4, coherence_time_us = 100, gate_fidelity = 99 / 100,
      readout_fidelity = 98 / 100\<rparr>"

record QPUHardwareInterface =
  config :: QPUConfig
  status :: QPUStatus
  error_mitigation_enabled :: bool
  test_mode :: bool

definition QPUHardwareInterface_init :: "bool \<Rightarrow> QPUHardwareInterface" where
  "QPUHardwareInterface_init tm =
     \<lparr>config = QPUConfig_default, status = READY, error_mitigation_enabled = True,
      test_mode = tm\<rparr>"

subsection \<open>The console\<close>

text \<open>
  \<open>print\<close> raises when standard output is closed or broken. The console is a parameter:
  the outcome of each successive call of \<open>print\<close>, \<open>None\<close> when the text is written and
  the exception otherwise. \<open>py_print\<close> makes one call: it gives the outcome of the first
  call and the console of the calls that follow.

  Every \<open>print\<close> of \<open>calibrate\<close>, and every \<open>print\<close> that \<open>process_vision_data\<close> makes
  up to its call of \<open>calibrate\<close>, is such a step. In \<open>execute_circuit\<close> the prints stand
  in the \<open>try\<close> block beside the simulator call, and an exception of that block is an
  exception of the simulator parameter; the prints of the decoders and of
  \<open>optimize_movement\<close> are not modelled.
\<close>

type_synonym console = "nat \<Rightarrow> py_error option"

definition py_print :: "console \<Rightarrow> (py_error + unit) \<times> console" where
  "py_print con =
     ((case con 0 of None \<Rightarrow> Inr () | Some e \<Rightarrow> Inl e), (\<lambda>k. con (Suc k)))"

definition check_status ::
  "console \<Rightarrow> QPUHardwareInterface \<Rightarrow> (py_error + QPUStatus) \<times> console" where
  "check_status con q =
     (case py_print con of
        (Inl e, con1) \<Rightarrow> (Inl e, con1)
      | (Inr u, con1) \<Rightarrow> (Inr (status q), con1))"

subsection \<open>Calibration\<close>

text \<open>
  \<open>calibrate\<close> is a \<open>try\<close> block with an \<open>except Exception\<close> handler. The body is
  \<open>calibrate_try\<close>: it prints, assigns CALIBRATING, prints in test mode, assigns READY,
  prints and returns \<open>True\<close>. It gives \<open>Inr\<close> with the value and the state when it reaches
  its \<open>return\<close>, and \<open>Inl\<close> with the exception, the state and the console at the raise
  when one of its prints raises. The handler is \<open>calibrate_except\<close>: it prints, then
  assigns ERROR and returns \<open>False\<close>; an exception of its own print leaves the function.
\<close>

definition calibrate_try ::
  "console \<Rightarrow> QPUHardwareInterface
     \<Rightarrow> (py_error \<times> QPUHardwareInterface \<times> console) + (bool \<times> QPUHardwareInterface)" where
  "calibrate_try con q =
     (case py_print con of
        (Inl e, con1) \<Rightarrow> Inl (e, q, con1)
      | (Inr u, con1) \<Rightarrow>
          (let q1 = q\<lparr>status := CALIBRATING\<rparr> in
           case (if test_mode q1 then py_print con1 else (Inr (), con1)) of
             (Inl e, con2) \<Rightarrow> Inl (e, q1, con2)
           | (Inr u', con2) \<Rightarrow>
               (let q2 = q1\<lparr>status := READY\<rparr> in
                case py_print con2 of
                  (Inl e, con3) \<Rightarrow> Inl (e, q2, con3)
                | (Inr u'', con3) \<Rightarrow> Inr (True, q2))))"

definition calibrate_except ::
  "py_error \<Rightarrow> console \<Rightarrow> QPUHardwareInterface
     \<Rightarrow> (py_error + bool) \<times> QPUHardwareInterface" where
  "calibrate_except e con q =
     (case py_print con of
        (Inl e', con1) \<Rightarrow> (Inl e', q)
      | (Inr u, con1) \<Rightarrow> (Inr False, q\<lparr>status := ERROR\<rparr>))"

definition calibrate ::
  "console \<Rightarrow> QPUHardwareInterface \<Rightarrow> (py_error + bool) \<times> QPUHardwareInterface" where
  "calibrate con q =
     (case calibrate_try con q of
        Inr (r, q') \<Rightarrow> (Inr r, q')
      | Inl (e, q', con') \<Rightarrow> calibrate_except e con' q')"

section \<open>Circuits\<close>

text \<open>
  A circuit is the sequence of operations appended to it, in order. The library's
  \<open>measure\<close> refuses an empty qubit list with a \<open>ValueError\<close>.
\<close>

datatype GridQubit = GridQubit int int

datatype operation =
    H GridQubit
  | XPow GridQubit real
  | YPow GridQubit real
  | CNOT GridQubit GridQubit
  | Measure "GridQubit list" string

type_synonym circuit = "operation list"

definition circuit_append :: "circuit \<Rightarrow> operation list \<Rightarrow> circuit" where
  "circuit_append c ops = c @ ops"

definition cirq_measure :: "GridQubit list \<Rightarrow> string \<Rightarrow> py_error + operation" where
  "cirq_measure qs k =
     (if qs = [] then Inl (ValueError ''Measuring an empty set of qubits.'')
      else Inr (Measure qs k))"

text \<open>\<open>[cirq.GridQubit(i, 0) for i in range(n)]\<close>; the range of a negative \<open>n\<close> is empty.\<close>

definition make_qubits :: "int \<Rightarrow> GridQubit list" where
  "make_qubits n = map (\<lambda>i. GridQubit (int i) 0) [0..<nat n]"

text \<open>
  The encoding loop \<open>for i, data in enumerate(input_data)\<close>, which breaks at the first
  index that has no qubit.
\<close>

fun encode_data :: "GridQubit list \<Rightarrow> nat \<Rightarrow> real list \<Rightarrow> circuit \<Rightarrow> circuit" where
  "encode_data qs i [] c = c"
| "encode_data qs i (d # ds) c =
     (if i \<ge> length qs then c
      else encode_data qs (Suc i) ds (circuit_append c [YPow (qs ! i) (d / pi)]))"

text \<open>The entangling loop \<open>for i in range(len(qubits) - 1)\<close>.\<close>

definition entangle :: "GridQubit list \<Rightarrow> circuit \<Rightarrow> circuit" where
  "entangle qs c =
     fold (\<lambda>i c'. circuit_append c' [CNOT (qs ! i) (qs ! (i + 1))]) [0..<length qs - 1] c"

definition create_recognition_circuit ::
  "GridQubit list \<Rightarrow> real list \<Rightarrow> py_error + circuit" where
  "create_recognition_circuit qs input_data =
     (let c0 = [];
          c1 = circuit_append c0 (map H qs);
          c2 = encode_data qs 0 input_data c1;
          c3 = entangle qs c2
      in case cirq_measure qs ''result'' of
           Inl e \<Rightarrow> Inl e
         | Inr m \<Rightarrow> Inr (circuit_append c3 [m]))"

section \<open>Execution\<close>

text \<open>
  \<open>result.measurements\<close> is a dictionary from a result key to a two-dimensional array,
  one row per shot and one column per measured qubit. Dictionaries are association lists
  read with \<open>map_of\<close>. The simulator is a parameter: it answers a circuit and a number of
  repetitions with the measurements or with an exception.
\<close>

type_synonym measurements = "(string \<times> int list list) list"
type_synonym raw_results = "(string \<times> measurements) list"
type_synonym engine = "circuit \<Rightarrow> nat \<Rightarrow> py_error + measurements"

definition dict_getitem :: "(string \<times> 'v) list \<Rightarrow> string \<Rightarrow> py_error + 'v" where
  "dict_getitem d k = (case map_of d k of None \<Rightarrow> Inl (KeyError k) | Some v \<Rightarrow> Inr v)"

definition execute_circuit ::
  "engine \<Rightarrow> QPUHardwareInterface \<Rightarrow> circuit
     \<Rightarrow> (py_error + raw_results option) \<times> QPUHardwareInterface" where
  "execute_circuit run q c =
     (if status q \<noteq> READY
      then (Inl (RuntimeError (''QPU not ready. Current status: '' @ QPUStatus_str (status q))), q)
      else (case run c 100 of
              Inr ms \<Rightarrow> (Inr (Some [(''measurements'', ms)]), q)
            | Inl e \<Rightarrow> (Inr None, q\<lparr>status := ERROR\<rparr>)))"

section \<open>Pattern recognition\<close>

record QuantumPatternRecognition =
  qpu :: QPUHardwareInterface
  qubits :: "GridQubit list"

definition QuantumPatternRecognition_init ::
  "QPUHardwareInterface \<Rightarrow> QuantumPatternRecognition" where
  "QuantumPatternRecognition_init q =
     \<lparr>qpu = q, qubits = make_qubits (num_qubits (config q))\<rparr>"

record Decision =
  pattern_identified :: bool
  confidence_score :: real

text \<open>
  \<open>np.mean\<close> of a two-dimensional array with no axis given: the sum of all its entries
  over their number. On an array with no entry it warns and gives \<open>nan\<close> without raising;
  the decoder then fails on the next line, so that value is never returned.
\<close>

definition np_mean :: "int list list \<Rightarrow> real" where
  "np_mean m = real_of_int (sum_list (concat m)) / real (length (concat m))"

text \<open>\<open>measurements[0][0]\<close> on the array.\<close>

definition first_entry :: "int list list \<Rightarrow> py_error + int" where
  "first_entry m =
     (case m of
        [] \<Rightarrow> Inl (IndexError ''index 0 is out of bounds for axis 0 with size 0'')
      | shot # _ \<Rightarrow>
          (case shot of
             [] \<Rightarrow> Inl (IndexError ''index 0 is out of bounds for axis 0 with size 0'')
           | b # _ \<Rightarrow> Inr b))"

text \<open>The method \<open>_post_process_results\<close>.\<close>

definition post_process_results :: "raw_results \<Rightarrow> py_error + Decision" where
  "post_process_results raw =
     (case dict_getitem raw ''measurements'' of
        Inl e \<Rightarrow> Inl e
      | Inr ms \<Rightarrow>
          (case dict_getitem ms ''result'' of
             Inl e \<Rightarrow> Inl e
           | Inr m \<Rightarrow>
               (let confidence = np_mean m
                in case first_entry m of
                     Inl e \<Rightarrow> Inl e
                   | Inr b \<Rightarrow>
                       Inr \<lparr>pattern_identified = (b \<noteq> 0), confidence_score = confidence\<rparr>)))"

text \<open>
  \<open>process_vision_data\<close> prints, reads the status with \<open>check_status\<close> (which prints),
  calls \<open>calibrate\<close> when the status is not READY without reading what it returns,
  builds the circuit, executes it and decodes the result. An exception of any step
  leaves the function.
\<close>

definition process_vision_data ::
  "engine \<Rightarrow> console \<Rightarrow> QuantumPatternRecognition \<Rightarrow> real list
     \<Rightarrow> (py_error + Decision) \<times> QuantumPatternRecognition" where
  "process_vision_data run con self vision_data =
     (case py_print con of
        (Inl e, con1) \<Rightarrow> (Inl e, self)
      | (Inr u, con1) \<Rightarrow>
          (case check_status con1 (qpu self) of
             (Inl e, con2) \<Rightarrow> (Inl e, self)
           | (Inr st, con2) \<Rightarrow>
               (case (if st \<noteq> READY
                      then (case calibrate con2 (qpu self) of
                              (Inl e, q1) \<Rightarrow> (Inl e, q1)
                            | (Inr r, q1) \<Rightarrow> (Inr (), q1))
                      else (Inr (), qpu self)) of
                  (Inl e, q1) \<Rightarrow> (Inl e, self\<lparr>qpu := q1\<rparr>)
                | (Inr u', q1) \<Rightarrow>
                    (case create_recognition_circuit (qubits self) vision_data of
                       Inl e \<Rightarrow> (Inl e, self\<lparr>qpu := q1\<rparr>)
                     | Inr circuit \<Rightarrow>
                         (case execute_circuit run q1 circuit of
                            (Inl e, q2) \<Rightarrow> (Inl e, self\<lparr>qpu := q2\<rparr>)
                          | (Inr None, q2) \<Rightarrow>
                              (Inl (RuntimeError ''Pattern recognition failed''),
                               self\<lparr>qpu := q2\<rparr>)
                          | (Inr (Some result), q2) \<Rightarrow>
                              (post_process_results result, self\<lparr>qpu := q2\<rparr>))))))"

section \<open>Movement optimisation (middleware\_simulation.py)\<close>

definition create_quantum_circuit :: "py_error + circuit" where
  "create_quantum_circuit =
     (let qs = [GridQubit 0 0, GridQubit 0 1];
          c0 = [];
          c1 = circuit_append c0 [H (qs ! 0), H (qs ! 1)];
          c2 = circuit_append c1 [XPow (qs ! 0) (25 / 100), YPow (qs ! 1) (1 / 6)];
          c3 = circuit_append c2 [CNOT (qs ! 0) (qs ! 1)]
      in case cirq_measure qs ''result'' of
           Inl e \<Rightarrow> Inl e
         | Inr m \<Rightarrow> Inr (circuit_append c3 [m]))"

text \<open>
  The histogram is a \<open>Counter\<close>: an association list from outcome to count, in the
  order of first insertion. The simulator together with \<open>result.histogram\<close> is a
  parameter.
\<close>

type_synonym 'k histogram = "('k \<times> int) list"
type_synonym 'k sim_engine = "circuit \<Rightarrow> nat \<Rightarrow> py_error + 'k histogram"

definition simulate_quantum_circuit :: "'k sim_engine \<Rightarrow> py_error + 'k histogram" where
  "simulate_quantum_circuit run =
     (case create_quantum_circuit of
        Inl e \<Rightarrow> Inl e
      | Inr circuit \<Rightarrow> run circuit 100)"

text \<open>
  \<open>simulation_results.get\<close>, the key function given to \<open>max\<close>. \<open>max\<close> passes it only
  keys of the same dictionary, so the branch for a missing key is not reached there.
\<close>

definition counter_get :: "'k histogram \<Rightarrow> 'k \<Rightarrow> int" where
  "counter_get h k = (case map_of h k of Some c \<Rightarrow> c | None \<Rightarrow> 0)"

text \<open>
  Python's \<open>max(iterable, key=f)\<close>: it keeps the first item and replaces it only by an
  item whose key is strictly greater.
\<close>

fun max_scan :: "('a \<Rightarrow> int) \<Rightarrow> 'a \<Rightarrow> int \<Rightarrow> 'a list \<Rightarrow> 'a" where
  "max_scan f best bv [] = best"
| "max_scan f best bv (x # xs) =
     (let v = f x in if v > bv then max_scan f x v xs else max_scan f best bv xs)"

definition py_max_key :: "('a \<Rightarrow> int) \<Rightarrow> 'a list \<Rightarrow> py_error + 'a" where
  "py_max_key f xs =
     (case xs of
        [] \<Rightarrow> Inl (ValueError ''max() arg is an empty sequence'')
      | x # xs' \<Rightarrow> Inr (max_scan f x (f x) xs'))"

text \<open>
  \<open>optimize_movement\<close> returns nothing; what it does is call \<open>robot.move_decision\<close>.
  The second argument and the second component of the result are the decisions the
  robot has been given so far.
\<close>

definition optimize_movement ::
  "'k sim_engine \<Rightarrow> 'k list \<Rightarrow> (py_error + unit) \<times> 'k list" where
  "optimize_movement run robot =
     (case simulate_quantum_circuit run of
        Inl e \<Rightarrow> (Inl e, robot)
      | Inr simulation_results \<Rightarrow>
          (if simulation_results \<noteq> []
           then (case py_max_key (counter_get simulation_results) (map fst simulation_results) of
                   Inl e \<Rightarrow> (Inl e, robot)
                 | Inr movement_decision \<Rightarrow> (Inr (), robot @ [movement_decision]))
           else (Inr (), robot)))"

section \<open>Auxiliary definitions for the statements\<close>

text \<open>
  The mean of the qubit-0 column alone: the fraction of shots whose first bit is 1 when
  the entries are bits. It is the quantity the decoder's confidence is compared with.
\<close>

definition spec_qubit0_mean :: "int list list \<Rightarrow> real" where
  "spec_qubit0_mean m =
     real_of_int (sum_list (map (\<lambda>shot. case shot of [] \<Rightarrow> 0 | b # _ \<Rightarrow> b) m)) /
     real (length m)"

definition is_H :: "operation \<Rightarrow> bool" where
  "is_H g = (case g of H _ \<Rightarrow> True | _ \<Rightarrow> False)"

definition is_YPow :: "operation \<Rightarrow> bool" where
  "is_YPow g = (case g of YPow _ _ \<Rightarrow> True | _ \<Rightarrow> False)"

definition is_CNOT :: "operation \<Rightarrow> bool" where
  "is_CNOT g = (case g of CNOT _ _ \<Rightarrow> True | _ \<Rightarrow> False)"

definition is_Measure :: "operation \<Rightarrow> bool" where
  "is_Measure g = (case g of Measure _ _ \<Rightarrow> True | _ \<Rightarrow> False)"

text \<open>A recognition module on the default four-qubit hardware, whose status is BUSY.\<close>

definition busy_recognition :: QuantumPatternRecognition where
  "busy_recognition =
     QuantumPatternRecognition_init ((QPUHardwareInterface_init True)\<lparr>status := BUSY\<rparr>)"

section \<open>The status machine\<close>

text \<open>
  C2. In every status other than READY, \<open>execute_circuit\<close> raises the
  \<open>RuntimeError\<close> whose message ends with the current status, whatever the circuit and
  the simulator, and the hardware state it leaves is the one it found.
\<close>

theorem readiness_gate:
  "status q \<noteq> READY \<Longrightarrow>
     execute_circuit run q c =
       (Inl (RuntimeError (''QPU not ready. Current status: '' @ QPUStatus_str (status q))), q)"
  by (simp add: execute_circuit_def)

theorem readiness_gate_witness:
  "status ((QPUHardwareInterface_init True)\<lparr>status := BUSY\<rparr>) \<noteq> READY \<and>
   execute_circuit (\<lambda>c n. Inr []) ((QPUHardwareInterface_init True)\<lparr>status := BUSY\<rparr>) [] =
     (Inl (RuntimeError ''QPU not ready. Current status: QPUStatus.BUSY''),
      (QPUHardwareInterface_init True)\<lparr>status := BUSY\<rparr>)"
  using readiness_gate
    [of "(QPUHardwareInterface_init True)\<lparr>status := BUSY\<rparr>" "\<lambda>c n. Inr []" "[]"]
  by simp



subsection \<open>Calibration\<close>

lemma calibrate_prints_ok:
  "con 0 = None \<Longrightarrow> con 1 = None \<Longrightarrow> (test_mode q \<Longrightarrow> con 2 = None) \<Longrightarrow>
     calibrate con q = (Inr True, q\<lparr>status := READY\<rparr>)"
  by (simp add: calibrate_def calibrate_try_def py_print_def numeral_2_eq_2)

lemma calibrate_True_prints:
  "fst (calibrate con q) = Inr True \<Longrightarrow>
     con 0 = None \<and> con 1 = None \<and> (test_mode q \<longrightarrow> con 2 = None)"
  by (auto simp add: calibrate_def calibrate_try_def calibrate_except_def py_print_def
      numeral_2_eq_2 split: option.splits if_splits)

lemma calibrate_False_status:
  "fst (calibrate con q) = Inr False \<Longrightarrow> status (snd (calibrate con q)) = ERROR"
  by (auto simp add: calibrate_def calibrate_try_def calibrate_except_def py_print_def
      split: option.splits if_splits)

text \<open>
  C5. A failing \<open>calibrate\<close> is meant to end in ERROR and to return failure, and no
  call is meant to end with the status CALIBRATING: the handler assigns ERROR and
  returns \<open>False\<close>. It misses this, because it prints before it assigns. On a READY
  device in test mode whose standard output takes the first line and then breaks, the
  test-mode print raises with the status already CALIBRATING, the handler's own print
  raises too, and that exception leaves \<open>calibrate\<close> with the status CALIBRATING: no
  value is returned and ERROR is never assigned.
\<close>

theorem calibrate_escapes_calibrating:
  "calibrate (\<lambda>k. if k = 0 then None else Some (OtherException ''stdout closed''))
      (QPUHardwareInterface_init True) =
     (Inl (OtherException ''stdout closed''),
      (QPUHardwareInterface_init True)\<lparr>status := CALIBRATING\<rparr>) \<and>
   status (QPUHardwareInterface_init True) = READY \<and>
   status (snd (calibrate (\<lambda>k. if k = 0 then None else Some (OtherException ''stdout closed''))
      (QPUHardwareInterface_init True))) = CALIBRATING"
  by (simp add: calibrate_def calibrate_try_def calibrate_except_def py_print_def
      QPUHardwareInterface_init_def)

text \<open>
  C10, as first stated, fails: the body of \<open>calibrate\<close> can raise, since it prints. When
  the first print raises and the handler's print succeeds, \<open>calibrate\<close> returns \<open>False\<close>
  and leaves the status ERROR.
\<close>

theorem calibrate_failure_counterexample:
  "calibrate (\<lambda>k. if k = 0 then Some (OtherException ''stdout closed'') else None)
      (QPUHardwareInterface_init True) =
     (Inr False, (QPUHardwareInterface_init True)\<lparr>status := ERROR\<rparr>)"
  by (simp add: calibrate_def calibrate_try_def calibrate_except_def py_print_def)

text \<open>
  C10, amended. From every starting state \<open>calibrate\<close> returns \<open>True\<close> exactly when every
  print of its body succeeds (two prints, three in test mode), and it then leaves the
  status READY. Its failure branch is reachable: when a print of the body raises and
  the print of the handler succeeds, \<open>calibrate\<close> returns \<open>False\<close> and leaves the status
  ERROR; and whenever \<open>calibrate\<close> returns \<open>False\<close> the status is ERROR.
\<close>

theorem calibrate_succeeds_iff_prints_do:
  "(fst (calibrate con q) = Inr True) =
     (con 0 = None \<and> con 1 = None \<and> (test_mode q \<longrightarrow> con 2 = None)) \<and>
   (con 0 = None \<and> con 1 = None \<and> (test_mode q \<longrightarrow> con 2 = None) \<longrightarrow>
      calibrate con q = (Inr True, q\<lparr>status := READY\<rparr>)) \<and>
   (fst (calibrate con q) = Inr False \<longrightarrow> status (snd (calibrate con q)) = ERROR) \<and>
   (con1 0 \<noteq> None \<and> con1 1 = None \<longrightarrow>
      calibrate con1 q = (Inr False, q\<lparr>status := ERROR\<rparr>)) \<and>
   (con2 0 = None \<and> con2 1 \<noteq> None \<and> con2 2 = None \<longrightarrow>
      calibrate con2 q = (Inr False, q\<lparr>status := ERROR\<rparr>)) \<and>
   (test_mode q \<and> con3 0 = None \<and> con3 1 = None \<and> con3 2 \<noteq> None \<and> con3 3 = None \<longrightarrow>
      calibrate con3 q = (Inr False, q\<lparr>status := ERROR\<rparr>))"
proof -
  have a: "calibrate con q = (Inr True, q\<lparr>status := READY\<rparr>)"
    if "con 0 = None \<and> con 1 = None \<and> (test_mode q \<longrightarrow> con 2 = None)"
    using that by (simp add: calibrate_prints_ok)
  have b: "con 0 = None \<and> con 1 = None \<and> (test_mode q \<longrightarrow> con 2 = None)"
    if "fst (calibrate con q) = Inr True"
    using that by (rule calibrate_True_prints)
  have c: "status (snd (calibrate con q)) = ERROR" if "fst (calibrate con q) = Inr False"
    using that by (rule calibrate_False_status)
  from a have a': "fst (calibrate con q) = Inr True"
    if "con 0 = None \<and> con 1 = None \<and> (test_mode q \<longrightarrow> con 2 = None)"
    using that by simp
  have d1: "calibrate con1 q = (Inr False, q\<lparr>status := ERROR\<rparr>)"
    if "con1 0 \<noteq> None \<and> con1 1 = None"
    using that
    by (auto simp add: calibrate_def calibrate_try_def calibrate_except_def py_print_def)
  have d2: "calibrate con2 q = (Inr False, q\<lparr>status := ERROR\<rparr>)"
    if "con2 0 = None \<and> con2 1 \<noteq> None \<and> con2 2 = None"
    using that
    by (auto simp add: calibrate_def calibrate_try_def calibrate_except_def py_print_def
        numeral_2_eq_2)
  have d3: "calibrate con3 q = (Inr False, q\<lparr>status := ERROR\<rparr>)"
    if "test_mode q \<and> con3 0 = None \<and> con3 1 = None \<and> con3 2 \<noteq> None \<and> con3 3 = None"
    using that
    by (auto simp add: calibrate_def calibrate_try_def calibrate_except_def py_print_def
        numeral_2_eq_2 numeral_3_eq_3)
  from a a' b c d1 d2 d3 show ?thesis by blast
qed

text \<open>
  The witness calibrates the BUSY test-mode device on four consoles: one that never
  fails, and one for each of the three prints of the body, failing at that print only.
\<close>

theorem calibrate_succeeds_iff_prints_do_witness:
  "test_mode ((QPUHardwareInterface_init True)\<lparr>status := BUSY\<rparr>) \<and>
   calibrate (\<lambda>k. None) ((QPUHardwareInterface_init True)\<lparr>status := BUSY\<rparr>) =
     (Inr True, (QPUHardwareInterface_init True)\<lparr>status := READY\<rparr>) \<and>
   calibrate (\<lambda>k. if k = 0 then Some (OtherException ''stdout closed'') else None)
      ((QPUHardwareInterface_init True)\<lparr>status := BUSY\<rparr>) =
     (Inr False, (QPUHardwareInterface_init True)\<lparr>status := ERROR\<rparr>) \<and>
   calibrate (\<lambda>k. if k = 1 then Some (OtherException ''stdout closed'') else None)
      ((QPUHardwareInterface_init True)\<lparr>status := BUSY\<rparr>) =
     (Inr False, (QPUHardwareInterface_init True)\<lparr>status := ERROR\<rparr>) \<and>
   calibrate (\<lambda>k. if k = 2 then Some (OtherException ''stdout closed'') else None)
      ((QPUHardwareInterface_init True)\<lparr>status := BUSY\<rparr>) =
     (Inr False, (QPUHardwareInterface_init True)\<lparr>status := ERROR\<rparr>) \<and>
   status (snd (calibrate (\<lambda>k. if k = 1 then Some (OtherException ''stdout closed'') else None)
      ((QPUHardwareInterface_init True)\<lparr>status := BUSY\<rparr>))) = ERROR"
proof -
  let ?q = "(QPUHardwareInterface_init True)\<lparr>status := BUSY\<rparr>"
  let ?c0 = "\<lambda>k::nat. if k = 0 then Some (OtherException ''stdout closed'') else None"
  let ?c1 = "\<lambda>k::nat. if k = 1 then Some (OtherException ''stdout closed'') else None"
  let ?c2 = "\<lambda>k::nat. if k = 2 then Some (OtherException ''stdout closed'') else None"
  have t: "test_mode ?q" by (simp add: QPUHardwareInterface_init_def)
  note th = calibrate_succeeds_iff_prints_do [of "\<lambda>k. None" ?q ?c0 ?c1 ?c2]
  from th have ok: "calibrate (\<lambda>k. None) ?q = (Inr True, ?q\<lparr>status := READY\<rparr>)" by simp
  from th have f0: "calibrate ?c0 ?q = (Inr False, ?q\<lparr>status := ERROR\<rparr>)" by simp
  from th have f1: "calibrate ?c1 ?q = (Inr False, ?q\<lparr>status := ERROR\<rparr>)" by simp
  from th t have f2: "calibrate ?c2 ?q = (Inr False, ?q\<lparr>status := ERROR\<rparr>)" by simp
  from f1 have "fst (calibrate ?c1 ?q) = Inr False" by simp
  with calibrate_succeeds_iff_prints_do [of ?c1 ?q]
  have er: "status (snd (calibrate ?c1 ?q)) = ERROR" by blast
  from t ok f0 f1 f2 er show ?thesis by simp
qed

section \<open>The circuit builder\<close>

text \<open>The two loops as list functions: the encoding loop zips qubits with features.\<close>

lemma encode_data_zip:
  "i \<le> length qs \<Longrightarrow>
     encode_data qs i ds c = c @ map2 (\<lambda>q d. YPow q (d / pi)) (drop i qs) ds"
proof (induction ds arbitrary: i c)
  case Nil
  then show ?case by simp
next
  case (Cons d ds)
  show ?case
  proof (cases "i < length qs")
    case True
    then have "drop i qs = qs ! i # drop (Suc i) qs"
      by (simp add: Cons_nth_drop_Suc)
    with True Cons.IH [of "Suc i"] show ?thesis
      by (simp add: circuit_append_def)
  next
    case False
    with Cons.prems show ?thesis by simp
  qed
qed

lemma fold_append_map:
  "fold (\<lambda>i c'. circuit_append c' [f i]) xs c = c @ map f xs"
  by (induction xs arbitrary: c) (simp_all add: circuit_append_def)

lemma entangle_map:
  "entangle qs c = c @ map (\<lambda>i. CNOT (qs ! i) (qs ! (i + 1))) [0..<length qs - 1]"
  unfolding entangle_def by (rule fold_append_map)

lemma create_recognition_circuit_layers:
  "qs \<noteq> [] \<Longrightarrow>
     create_recognition_circuit qs v =
       Inr (map H qs @ map2 (\<lambda>q d. YPow q (d / pi)) qs v @
            map (\<lambda>i. CNOT (qs ! i) (qs ! (i + 1))) [0..<length qs - 1] @
            [Measure qs ''result''])"
  by (simp add: create_recognition_circuit_def cirq_measure_def circuit_append_def
      encode_data_zip entangle_map)

lemma create_recognition_circuit_empty:
  "create_recognition_circuit [] v = Inl (ValueError ''Measuring an empty set of qubits.'')"
  by (simp add: create_recognition_circuit_def cirq_measure_def)

lemma zip_take_length: "zip qs (take (length qs) v) = zip qs v"
proof (induction qs arbitrary: v)
  case Nil
  then show ?case by simp
next
  case (Cons q qs)
  then show ?case by (cases v) simp_all
qed

lemma create_recognition_circuit_take:
  "create_recognition_circuit qs (take (length qs) v) = create_recognition_circuit qs v"
proof (cases "qs = []")
  case True
  then show ?thesis by (simp add: create_recognition_circuit_empty)
next
  case False
  then show ?thesis by (simp add: create_recognition_circuit_layers zip_take_length)
qed

lemma length_make_qubits: "length (make_qubits n) = nat n"
  by (simp add: make_qubits_def)

lemma make_qubits_4:
  "make_qubits 4 = [GridQubit 0 0, GridQubit 1 0, GridQubit 2 0, GridQubit 3 0]"
  by (simp add: make_qubits_def upt_rec eval_nat_numeral)

text \<open>
  C6. For every qubit count \<open>n\<close> and every feature vector longer than \<open>n\<close>, the builder
  gives the same result on the vector and on its first \<open>n\<close> entries. For a positive
  \<open>n\<close> that result is a circuit, not an error, and its rotation layer pairs qubit \<open>i\<close>
  with feature \<open>i\<close> for \<open>i < n\<close>: the later features appear nowhere.
\<close>

theorem feature_truncation:
  "n < int (length v) \<Longrightarrow>
     create_recognition_circuit (make_qubits n) v =
       create_recognition_circuit (make_qubits n) (take (nat n) v) \<and>
     (0 < n \<longrightarrow>
        create_recognition_circuit (make_qubits n) v =
          Inr (map H (make_qubits n) @
               map2 (\<lambda>q d. YPow q (d / pi)) (make_qubits n) v @
               map (\<lambda>i. CNOT (make_qubits n ! i) (make_qubits n ! (i + 1))) [0..<nat n - 1] @
               [Measure (make_qubits n) ''result'']))"
proof -
  have "create_recognition_circuit (make_qubits n) (take (length (make_qubits n)) v) =
        create_recognition_circuit (make_qubits n) v"
    by (rule create_recognition_circuit_take)
  moreover have "0 < n \<Longrightarrow> make_qubits n \<noteq> []"
    using length_make_qubits [of n] by auto
  ultimately show ?thesis
    using create_recognition_circuit_layers [of "make_qubits n" v]
    by (simp add: length_make_qubits)
qed

theorem feature_truncation_witness:
  "(2::int) < int (length [1, 2, 3 :: real]) \<and> (0::int) < 2 \<and>
   create_recognition_circuit (make_qubits 2) [1, 2, 3] =
     create_recognition_circuit (make_qubits 2) [1, 2] \<and>
   create_recognition_circuit (make_qubits 2) [1, 2, 3] =
     Inr [H (GridQubit 0 0), H (GridQubit 1 0),
          YPow (GridQubit 0 0) (1 / pi), YPow (GridQubit 1 0) (2 / pi),
          CNOT (GridQubit 0 0) (GridQubit 1 0),
          Measure [GridQubit 0 0, GridQubit 1 0] ''result'']"
proof -
  have q2: "make_qubits 2 = [GridQubit 0 0, GridQubit 1 0]"
    by (simp add: make_qubits_def upt_rec numeral_2_eq_2)
  have h: "(2::int) < int (length [1, 2, 3 :: real])" by simp
  from feature_truncation [OF h] show ?thesis
    by (auto simp add: q2 upt_rec numeral_2_eq_2)
qed

text \<open>
  C7. On the default four-qubit hardware the features 0.5, 0.3, 0.8, 0.1 give the
  circuit below: four Hadamard gates, four Y rotations whose exponent on qubit \<open>i\<close> is
  feature \<open>i\<close> over \<open>pi\<close>, three CNOT gates on the adjacent pairs, and one measurement of
  all four qubits under the key \<open>result\<close>, which is the last operation.
\<close>

theorem scenario_circuit:
  "create_recognition_circuit
      (qubits (QuantumPatternRecognition_init (QPUHardwareInterface_init True)))
      [0.5, 0.3, 0.8, 0.1] =
     Inr [H (GridQubit 0 0), H (GridQubit 1 0), H (GridQubit 2 0), H (GridQubit 3 0),
          YPow (GridQubit 0 0) (0.5 / pi), YPow (GridQubit 1 0) (0.3 / pi),
          YPow (GridQubit 2 0) (0.8 / pi), YPow (GridQubit 3 0) (0.1 / pi),
          CNOT (GridQubit 0 0) (GridQubit 1 0), CNOT (GridQubit 1 0) (GridQubit 2 0),
          CNOT (GridQubit 2 0) (GridQubit 3 0),
          Measure [GridQubit 0 0, GridQubit 1 0, GridQubit 2 0, GridQubit 3 0] ''result''] \<and>
   (case create_recognition_circuit
           (qubits (QuantumPatternRecognition_init (QPUHardwareInterface_init True)))
           [0.5, 0.3, 0.8, 0.1] of
      Inl e \<Rightarrow> False
    | Inr c \<Rightarrow>
        length (filter is_H c) = 4 \<and> length (filter is_YPow c) = 4 \<and>
        length (filter is_CNOT c) = 3 \<and> length (filter is_Measure c) = 1 \<and>
        last c = Measure [GridQubit 0 0, GridQubit 1 0, GridQubit 2 0, GridQubit 3 0] ''result'')"
  by (simp add: QuantumPatternRecognition_init_def QPUHardwareInterface_init_def
      QPUConfig_default_def make_qubits_4 create_recognition_circuit_def cirq_measure_def
      circuit_append_def entangle_def upt_rec is_H_def is_YPow_def is_CNOT_def is_Measure_def)

section \<open>The pattern-recognition decoder\<close>

lemma sum_list_bits: "set xs \<subseteq> {0, 1} \<Longrightarrow> sum_list xs = int (count_list xs 1)"
  by (induction xs) auto

lemma length_concat_rect: "\<forall>s\<in>set m. length s = w \<Longrightarrow> length (concat m) = length m * w"
  by (induction m) auto

lemma first_entry_rect:
  "m \<noteq> [] \<Longrightarrow> 0 < w \<Longrightarrow> \<forall>s\<in>set m. length s = w \<Longrightarrow> first_entry m = Inr (m ! 0 ! 0)"
  by (cases m; cases "hd m") (auto simp: first_entry_def)

lemma t63_mean:
  "np_mean (replicate 63 [1, 0, 0, 0] @ replicate 37 [0, 0, 0, 0]) = 63 / 400"
  unfolding np_mean_def by code_simp

lemma t63_first:
  "first_entry (replicate 63 [1, 0, 0, 0] @ replicate 37 [0, 0, 0, 0]) = Inr 1"
  by (simp add: first_entry_def eval_nat_numeral)

lemma t63_spec:
  "spec_qubit0_mean (replicate 63 [1, 0, 0, 0] @ replicate 37 [0, 0, 0, 0]) = 63 / 100"
  unfolding spec_qubit0_mean_def by code_simp

text \<open>
  C1, as first stated, fails. On a table of 100 shots of four qubits in which qubit 0 is
  1 in 63 shots and every other bit is 0, the mean of the qubit-0 bits is 0.63, and the
  decoder returns the confidence 63/400 = 0.1575: \<open>np.mean\<close> averages every entry of the
  table, not one column.
\<close>

theorem confidence_qubit0_counterexample:
  "post_process_results
      [(''measurements'', [(''result'', replicate 63 [1, 0, 0, 0] @ replicate 37 [0, 0, 0, 0])])] =
     Inr \<lparr>pattern_identified = True, confidence_score = 63 / 400\<rparr> \<and>
   spec_qubit0_mean (replicate 63 [1, 0, 0, 0] @ replicate 37 [0, 0, 0, 0]) = 63 / 100 \<and>
   post_process_results
      [(''measurements'', [(''result'', replicate 63 [1, 0, 0, 0] @ replicate 37 [0, 0, 0, 0])])] \<noteq>
     Inr \<lparr>pattern_identified = True,
          confidence_score =
            spec_qubit0_mean (replicate 63 [1, 0, 0, 0] @ replicate 37 [0, 0, 0, 0])\<rparr>"
  by (simp add: post_process_results_def dict_getitem_def t63_mean t63_first t63_spec)

text \<open>
  C1, amended. For every non-empty table of bits with \<open>w > 0\<close> qubits per shot, the
  decoder returns as confidence the mean of all the bits of the table, over all shots
  and all measured qubits (the fraction of the measured bits that are 1), and as pattern
  flag whether the qubit-0 bit of the first shot is non-zero. On the table of 100 shots
  of four qubits in which qubit 0 is 1 in 63 shots and every other bit is 0, the
  confidence is 63/400 = 0.1575.
\<close>

theorem confidence_is_mean_of_all_bits:
  assumes "dict_getitem raw ''measurements'' = Inr ms"
    and "dict_getitem ms ''result'' = Inr m"
    and "m \<noteq> []" and "0 < w"
    and "\<forall>shot\<in>set m. length shot = w \<and> set shot \<subseteq> {0, 1}"
  shows "post_process_results raw =
           Inr \<lparr>pattern_identified = (m ! 0 ! 0 \<noteq> 0),
                confidence_score = real (count_list (concat m) 1) / real (length m * w)\<rparr> \<and>
         post_process_results
            [(''measurements'',
              [(''result'', replicate 63 [1, 0, 0, 0] @ replicate 37 [0, 0, 0, 0])])] =
           Inr \<lparr>pattern_identified = True, confidence_score = 63 / 400\<rparr>"
proof -
  from assms have fe: "first_entry m = Inr (m ! 0 ! 0)"
    by (simp add: first_entry_rect)
  from assms have len: "length (concat m) = length m * w"
    by (simp add: length_concat_rect)
  from assms have "set (concat m) \<subseteq> {0, 1}" by auto
  then have sm: "sum_list (concat m) = int (count_list (concat m) 1)"
    by (rule sum_list_bits)
  have mean: "np_mean m = real (count_list (concat m) 1) / real (length m * w)"
    using len sm by (simp add: np_mean_def)
  have gen: "post_process_results raw =
          Inr \<lparr>pattern_identified = (m ! 0 ! 0 \<noteq> 0), confidence_score = np_mean m\<rparr>"
    using assms(1,2) fe by (simp add: post_process_results_def)
  have inst: "post_process_results
            [(''measurements'',
              [(''result'', replicate 63 [1, 0, 0, 0] @ replicate 37 [0, 0, 0, 0])])] =
           Inr \<lparr>pattern_identified = True, confidence_score = 63 / 400\<rparr>"
    by (simp add: post_process_results_def dict_getitem_def t63_mean t63_first)
  from gen mean inst show ?thesis by simp
qed

text \<open>
  The witness is a table of three shots of two qubits: four of its six bits are 1, so
  the confidence is 2/3, while qubit 0 is 1 in every shot.
\<close>

theorem confidence_is_mean_of_all_bits_witness:
  "dict_getitem [(''measurements'', [(''result'', [[1, 0], [1, 0], [1, 1 :: int]])])]
      ''measurements'' = Inr [(''result'', [[1, 0], [1, 0], [1, 1]])] \<and>
   dict_getitem [(''result'', [[1, 0], [1, 0], [1, 1 :: int]])] ''result'' =
     Inr [[1, 0], [1, 0], [1, 1]] \<and>
   [[1, 0], [1, 0], [1, 1 :: int]] \<noteq> [] \<and> (0::nat) < 2 \<and>
   list_all (\<lambda>shot. length shot = 2 \<and> set shot \<subseteq> {0, 1}) [[1, 0], [1, 0], [1, 1 :: int]] \<and>
   post_process_results [(''measurements'', [(''result'', [[1, 0], [1, 0], [1, 1]])])] =
     Inr \<lparr>pattern_identified = True, confidence_score = 2 / 3\<rparr> \<and>
   spec_qubit0_mean [[1, 0], [1, 0], [1, 1]] = 1"
proof -
  let ?m = "[[1, 0], [1, 0], [1, 1 :: int]]"
  have h1: "dict_getitem [(''measurements'', [(''result'', ?m)])] ''measurements'' =
              Inr [(''result'', ?m)]"
    by (simp add: dict_getitem_def)
  have h2: "dict_getitem [(''result'', ?m)] ''result'' = Inr ?m"
    by (simp add: dict_getitem_def)
  have h3: "?m \<noteq> []" by simp
  have h4: "(0::nat) < 2" by simp
  have h5: "\<forall>shot\<in>set ?m. length shot = 2 \<and> set shot \<subseteq> {0, 1}" by simp
  have h6: "(?m ! 0 ! 0 \<noteq> 0) = True" by simp
  have h7: "real (count_list (concat ?m) 1) / real (length ?m * 2) = 2 / 3" by simp
  have h8: "spec_qubit0_mean ?m = 1" by (simp add: spec_qubit0_mean_def)
  have "post_process_results [(''measurements'', [(''result'', ?m)])] =
          Inr \<lparr>pattern_identified = (?m ! 0 ! 0 \<noteq> 0),
               confidence_score = real (count_list (concat ?m) 1) / real (length ?m * 2)\<rparr>"
    using confidence_is_mean_of_all_bits [OF h1 h2 h3 h4 h5] by (rule conjunct1)
  then have h9: "post_process_results [(''measurements'', [(''result'', ?m)])] =
          Inr \<lparr>pattern_identified = True, confidence_score = 2 / 3\<rparr>"
    unfolding h6 h7 .
  have h10: "list_all (\<lambda>shot. length shot = 2 \<and> set shot \<subseteq> {0, 1}) ?m"
    using h5 unfolding list_all_iff .
  show ?thesis by (intro conjI h1 h2 h3 h4 h10 h9 h8)
qed

section \<open>The optimisation decoder\<close>

lemma max_scan_mem: "max_scan f best bv xs \<in> set (best # xs)"
  by (induction xs arbitrary: best bv) (auto simp: Let_def)

lemma max_scan_ge:
  "bv = f best \<Longrightarrow> \<forall>x\<in>set (best # xs). f x \<le> f (max_scan f best bv xs)"
proof (induction xs arbitrary: best bv)
  case Nil
  then show ?case by simp
next
  case (Cons y ys)
  show ?case
  proof (cases "f y > bv")
    case True
    have "\<forall>x\<in>set (y # ys). f x \<le> f (max_scan f y (f y) ys)"
      by (rule Cons.IH) simp
    with True Cons.prems show ?thesis
      by (auto simp: Let_def)
  next
    case False
    have "\<forall>x\<in>set (best # ys). f x \<le> f (max_scan f best bv ys)"
      by (rule Cons.IH) (rule Cons.prems)
    with False Cons.prems show ?thesis
      by (auto simp: Let_def)
  qed
qed

lemma py_max_key_ok:
  "xs \<noteq> [] \<Longrightarrow>
     \<exists>k. py_max_key f xs = Inr k \<and> k \<in> set xs \<and> (\<forall>x\<in>set xs. f x \<le> f k)"
proof (cases xs)
  case Nil
  then show "xs \<noteq> [] \<Longrightarrow> ?thesis" by simp
next
  case (Cons y ys)
  have "max_scan f y (f y) ys \<in> set (y # ys)" by (rule max_scan_mem)
  moreover have "\<forall>x\<in>set (y # ys). f x \<le> f (max_scan f y (f y) ys)"
    by (rule max_scan_ge) simp
  ultimately show ?thesis using Cons by (simp add: py_max_key_def)
qed

lemma simulate_const: "simulate_quantum_circuit (\<lambda>c n. r) = r"
  by (simp add: simulate_quantum_circuit_def create_quantum_circuit_def cirq_measure_def)

text \<open>
  C9. Whenever the simulation yields a non-empty histogram, \<open>optimize_movement\<close> gives
  the robot exactly one decision, a key of the histogram whose count is at least the
  count of every key of the histogram. On the histogram A:40, B:55, C:5 the decision
  is B.
\<close>

theorem histogram_selection:
  "(simulate_quantum_circuit run = Inr h \<and> h \<noteq> [] \<longrightarrow>
      (\<exists>k. optimize_movement run robot = (Inr (), robot @ [k]) \<and>
           k \<in> fst ` set h \<and>
           (\<forall>k'\<in>fst ` set h. counter_get h k' \<le> counter_get h k))) \<and>
   optimize_movement (\<lambda>c n. Inr [(''A'', 40), (''B'', 55), (''C'', 5)]) [] = (Inr (), [''B''])"
proof -
  have ex: "optimize_movement (\<lambda>c n. Inr [(''A'', 40), (''B'', 55), (''C'', 5)]) [] =
              (Inr (), [''B''])"
    by (simp add: optimize_movement_def simulate_const py_max_key_def counter_get_def)
  have gen: "\<exists>k. optimize_movement run robot = (Inr (), robot @ [k]) \<and>
           k \<in> fst ` set h \<and> (\<forall>k'\<in>fst ` set h. counter_get h k' \<le> counter_get h k)"
    if sim: "simulate_quantum_circuit run = Inr h" and ne: "h \<noteq> []"
  proof -
    from ne have "map fst h \<noteq> []" by simp
    from py_max_key_ok [OF this, of "counter_get h"]
    obtain k where "py_max_key (counter_get h) (map fst h) = Inr k"
      and "k \<in> set (map fst h)"
      and "\<forall>x\<in>set (map fst h). counter_get h x \<le> counter_get h k"
      by blast
    with sim ne show ?thesis
      by (auto simp add: optimize_movement_def)
  qed
  from ex gen show ?thesis by blast
qed

theorem histogram_selection_witness:
  "simulate_quantum_circuit (\<lambda>c n. Inr [(1::nat, 3::int), (2, 7), (3, 7)]) =
     Inr [(1::nat, 3::int), (2, 7), (3, 7)] \<and>
   [(1::nat, 3::int), (2, 7), (3, 7)] \<noteq> [] \<and>
   optimize_movement (\<lambda>c n. Inr [(1::nat, 3::int), (2, 7), (3, 7)]) [] = (Inr (), [2]) \<and>
   list_all
     (\<lambda>k'. counter_get [(1::nat, 3::int), (2, 7), (3, 7)] k' \<le>
           counter_get [(1::nat, 3::int), (2, 7), (3, 7)] 2)
     (map fst [(1::nat, 3::int), (2, 7), (3, 7)])"
proof -
  have e: "optimize_movement (\<lambda>c n. Inr [(1::nat, 3::int), (2, 7), (3, 7)]) [] = (Inr (), [2])"
    by (simp add: optimize_movement_def simulate_const py_max_key_def counter_get_def)
  from histogram_selection
    [of "\<lambda>c n. Inr [(1::nat, 3::int), (2, 7), (3, 7)]" "[(1::nat, 3::int), (2, 7), (3, 7)]" "[]"] e
  show ?thesis by (simp add: simulate_const counter_get_def)
qed

section \<open>Decoders on empty input\<close>

text \<open>
  C8, as first stated, fails for the optimisation decoder. On an empty histogram
  \<open>optimize_movement\<close> raises nothing: the test \<open>if simulation_results\<close> sends it to the
  branch that only prints, and it returns with no decision given to the robot.
\<close>

theorem empty_histogram_counterexample:
  "optimize_movement (\<lambda>c n. Inr ([] :: (string \<times> int) list)) [] = (Inr (), []) \<and>
   \<not> isl (fst (optimize_movement (\<lambda>c n. Inr ([] :: (string \<times> int) list)) []))"
  by (simp add: optimize_movement_def simulate_const)

text \<open>
  C8, amended. The pattern-recognition decoder raises on empty input: a \<open>KeyError\<close> when
  the key \<open>measurements\<close> or the result label \<open>result\<close> is missing, an \<open>IndexError\<close> when
  the table under the label has no shot. The optimisation decoder does not raise on an
  empty histogram: it returns normally and gives the robot no decision.
\<close>

theorem decoders_on_empty_input:
  "(map_of raw0 ''measurements'' = None \<longrightarrow>
      post_process_results raw0 = Inl (KeyError ''measurements'')) \<and>
   (map_of raw1 ''measurements'' = Some ms1 \<and> map_of ms1 ''result'' = None \<longrightarrow>
      post_process_results raw1 = Inl (KeyError ''result'')) \<and>
   (map_of raw2 ''measurements'' = Some ms2 \<and> map_of ms2 ''result'' = Some [] \<longrightarrow>
      post_process_results raw2 =
        Inl (IndexError ''index 0 is out of bounds for axis 0 with size 0'')) \<and>
   (simulate_quantum_circuit run = Inr [] \<longrightarrow> optimize_movement run robot = (Inr (), robot))"
  by (simp add: post_process_results_def dict_getitem_def first_entry_def optimize_movement_def)

theorem decoders_on_empty_input_witness:
  "map_of ([] :: raw_results) ''measurements'' = None \<and>
   post_process_results [] = Inl (KeyError ''measurements'') \<and>
   map_of [(''measurements'', [(''other'', [[1]])])] ''measurements'' =
     Some [(''other'', [[1 :: int]])] \<and>
   map_of [(''other'', [[1 :: int]])] ''result'' = None \<and>
   post_process_results [(''measurements'', [(''other'', [[1]])])] = Inl (KeyError ''result'') \<and>
   map_of [(''measurements'', [(''result'', [])])] ''measurements'' =
     Some [(''result'', ([] :: int list list))] \<and>
   map_of [(''result'', ([] :: int list list))] ''result'' = Some [] \<and>
   post_process_results [(''measurements'', [(''result'', [])])] =
     Inl (IndexError ''index 0 is out of bounds for axis 0 with size 0'') \<and>
   simulate_quantum_circuit (\<lambda>c n. Inr ([] :: (string \<times> int) list)) = Inr [] \<and>
   optimize_movement (\<lambda>c n. Inr ([] :: (string \<times> int) list)) [''B''] = (Inr (), [''B''])"
  using decoders_on_empty_input
    [of "[]" "[(''measurements'', [(''other'', [[1]])])]" "[(''other'', [[1]])]"
        "[(''measurements'', [(''result'', [])])]" "[(''result'', [])]"
        "\<lambda>c n. Inr ([] :: (string \<times> int) list)" "[''B'']"]
  by (simp add: simulate_const)

section \<open>The orchestration\<close>

lemma busy_recognition_simps:
  "status (qpu busy_recognition) = BUSY"
  "qubits busy_recognition = [GridQubit 0 0, GridQubit 1 0, GridQubit 2 0, GridQubit 3 0]"
  by (simp_all add: busy_recognition_def QuantumPatternRecognition_init_def
      QPUHardwareInterface_init_def QPUConfig_default_def make_qubits_4)

lemma busy_calibrate_fails:
  "calibrate (\<lambda>k. if k = 0 then Some (OtherException ''stdout closed'') else None)
      (qpu busy_recognition) =
     (Inr False, (qpu busy_recognition)\<lparr>status := ERROR\<rparr>)"
  by (simp add: calibrate_def calibrate_try_def calibrate_except_def py_print_def)

text \<open>
  C3, as first stated, fails. Take the BUSY four-qubit device and a standard output
  that fails once, at the first print of \<open>calibrate\<close> (the third print of the
  invocation). \<open>calibrate\<close> fails: it returns \<open>False\<close> and leaves the status ERROR.
  \<open>process_vision_data\<close> does not read that value: it builds the circuit and calls
  \<open>execute_circuit\<close> with it, and what ends the invocation is the not-ready
  \<open>RuntimeError\<close> of \<open>execute_circuit\<close> on that circuit, the error any call of
  \<open>execute_circuit\<close> gives in status ERROR.
\<close>

theorem process_calibration_counterexample:
  "calibrate (\<lambda>k. if k = 0 then Some (OtherException ''stdout closed'') else None)
      (qpu busy_recognition) =
     (Inr False, (qpu busy_recognition)\<lparr>status := ERROR\<rparr>) \<and>
   process_vision_data (\<lambda>c n. Inr [(''result'', [[1, 0, 0, 0]])])
      (\<lambda>k. if k = 2 then Some (OtherException ''stdout closed'') else None)
      busy_recognition [0.5, 0.3, 0.8, 0.1] =
     (Inl (RuntimeError ''QPU not ready. Current status: QPUStatus.ERROR''),
      busy_recognition\<lparr>qpu := (qpu busy_recognition)\<lparr>status := ERROR\<rparr>\<rparr>) \<and>
   execute_circuit (\<lambda>c n. Inr [(''result'', [[1, 0, 0, 0]])])
      ((qpu busy_recognition)\<lparr>status := ERROR\<rparr>)
      [H (GridQubit 0 0), H (GridQubit 1 0), H (GridQubit 2 0), H (GridQubit 3 0),
       YPow (GridQubit 0 0) (0.5 / pi), YPow (GridQubit 1 0) (0.3 / pi),
       YPow (GridQubit 2 0) (0.8 / pi), YPow (GridQubit 3 0) (0.1 / pi),
       CNOT (GridQubit 0 0) (GridQubit 1 0), CNOT (GridQubit 1 0) (GridQubit 2 0),
       CNOT (GridQubit 2 0) (GridQubit 3 0),
       Measure [GridQubit 0 0, GridQubit 1 0, GridQubit 2 0, GridQubit 3 0] ''result''] =
     (Inl (RuntimeError ''QPU not ready. Current status: QPUStatus.ERROR''),
      (qpu busy_recognition)\<lparr>status := ERROR\<rparr>)"
  by (simp add: process_vision_data_def check_status_def py_print_def busy_recognition_simps
      busy_calibrate_fails execute_circuit_def create_recognition_circuit_def
      cirq_measure_def circuit_append_def entangle_def upt_rec)

text \<open>
  C3, amended. When the status read at the start is not READY, \<open>calibrate()\<close> is called
  and what it returns is not read. If that calibration fails (it returns \<open>False\<close>, and
  the status is then ERROR), the invocation goes on: it builds the circuit and, if the
  build raises, ends with that exception; otherwise it calls \<open>execute_circuit\<close>, whose
  readiness test ends the invocation with the \<open>RuntimeError\<close> that names ERROR. No other
  error is raised for a failed calibration, and none before the circuit is built.
\<close>

theorem process_ignores_calibration_result:
  assumes "con 0 = None" and "con 1 = None"
    and "status (qpu self) \<noteq> READY"
    and "calibrate (\<lambda>k. con (Suc (Suc k))) (qpu self) = (Inr False, q')"
  shows "status q' = ERROR \<and>
         process_vision_data run con self v =
           (case create_recognition_circuit (qubits self) v of
              Inl e \<Rightarrow> (Inl e, self\<lparr>qpu := q'\<rparr>)
            | Inr c \<Rightarrow>
                (Inl (RuntimeError ''QPU not ready. Current status: QPUStatus.ERROR''),
                 self\<lparr>qpu := q'\<rparr>)) \<and>
         execute_circuit run q' c =
           (Inl (RuntimeError ''QPU not ready. Current status: QPUStatus.ERROR''), q')"
proof -
  from assms(4) have "fst (calibrate (\<lambda>k. con (Suc (Suc k))) (qpu self)) = Inr False"
    and q': "snd (calibrate (\<lambda>k. con (Suc (Suc k))) (qpu self)) = q'"
    by simp_all
  from calibrate_False_status [OF this(1)] q' have st: "status q' = ERROR" by simp
  then have ex: "execute_circuit run q' c0 =
      (Inl (RuntimeError ''QPU not ready. Current status: QPUStatus.ERROR''), q')" for c0
    by (simp add: execute_circuit_def)
  have "process_vision_data run con self v =
           (case create_recognition_circuit (qubits self) v of
              Inl e \<Rightarrow> (Inl e, self\<lparr>qpu := q'\<rparr>)
            | Inr c \<Rightarrow>
                (Inl (RuntimeError ''QPU not ready. Current status: QPUStatus.ERROR''),
                 self\<lparr>qpu := q'\<rparr>))"
    using assms ex
    by (simp add: process_vision_data_def check_status_def py_print_def split: sum.splits)
  with st ex show ?thesis by simp
qed

theorem process_ignores_calibration_result_witness:
  "(\<lambda>k. if k = 2 then Some (OtherException ''stdout closed'') else None) (0::nat) = None \<and>
   (\<lambda>k. if k = 2 then Some (OtherException ''stdout closed'') else None) (1::nat) = None \<and>
   status (qpu busy_recognition) \<noteq> READY \<and>
   calibrate (\<lambda>k. if k = 0 then Some (OtherException ''stdout closed'') else None)
      (qpu busy_recognition) =
     (Inr False, (qpu busy_recognition)\<lparr>status := ERROR\<rparr>) \<and>
   status ((qpu busy_recognition)\<lparr>status := ERROR\<rparr>) = ERROR \<and>
   process_vision_data (\<lambda>c n. Inr [(''result'', [[1, 0, 0, 0]])])
      (\<lambda>k. if k = 2 then Some (OtherException ''stdout closed'') else None)
      busy_recognition [0.5, 0.3, 0.8, 0.1] =
     (Inl (RuntimeError ''QPU not ready. Current status: QPUStatus.ERROR''),
      busy_recognition\<lparr>qpu := (qpu busy_recognition)\<lparr>status := ERROR\<rparr>\<rparr>)"
proof -
  let ?con = "\<lambda>k::nat. if k = 2 then Some (OtherException ''stdout closed'') else None"
  let ?run = "(\<lambda>c n. Inr [(''result'', [[1, 0, 0, 0]])]) :: engine"
  let ?q' = "(qpu busy_recognition)\<lparr>status := ERROR\<rparr>"
  have h1: "?con 0 = None" by simp
  have h2: "?con 1 = None" by simp
  have h3: "status (qpu busy_recognition) \<noteq> READY"
    by (simp add: busy_recognition_simps)
  have h4: "calibrate (\<lambda>k. ?con (Suc (Suc k))) (qpu busy_recognition) = (Inr False, ?q')"
    using busy_calibrate_fails by simp
  from process_ignores_calibration_result [OF h1 h2 h3 h4, of ?run "[0.5, 0.3, 0.8, 0.1]"]
  have "process_vision_data ?run ?con busy_recognition [0.5, 0.3, 0.8, 0.1] =
     (Inl (RuntimeError ''QPU not ready. Current status: QPUStatus.ERROR''),
      busy_recognition\<lparr>qpu := ?q'\<rparr>)"
    by (simp add: busy_recognition_simps create_recognition_circuit_def cirq_measure_def)
  with h3 busy_calibrate_fails show ?thesis by simp
qed

end
